theory Spec2Isabelle
  imports Complex_Main "HOL-Library.Multiset" "HOL-Library.Sublist"
begin

section \<open>Data model\<close>

text \<open>
  \<^verbatim>\<open>Product.ts\<close> and \<^verbatim>\<open>CartItem.ts\<close>. The field \<^verbatim>\<open>id\<close> is written \<open>id'\<close> and
  \<^verbatim>\<open>image\<close> is written \<open>image'\<close>, since both names are constants of HOL. The optional
  fields are options.

  Texts that are only compared or passed on (ids, messages, the contents of form
  fields) are \<open>string\<close>s. The name of a product and the search text go through the
  host's case mapping, which works on Unicode; they are sequences of UTF-16 code units,
  each a natural number. \<open>utf16\<close> gives the code units of a text of Latin-1 characters.

  A price is a finite JavaScript number, modelled by the rational it denotes (order
  comparisons and the sign of a difference of finite numbers agree with those of the
  rationals).
\<close>

type_synonym js_string = "nat list"

definition utf16 :: "string \<Rightarrow> js_string" where
  "utf16 s = map of_char s"

record Product =
  id' :: string
  name :: js_string
  price :: rat
  description :: "string option"
  image' :: "string option"

record CartItem =
  product :: Product
  quantity :: int

text \<open>
  A quantity is a JavaScript number that holds an integer: it starts at 1 and moves in
  steps of 1. Such a number is a double, an integer with at most 53 significant bits.
  The sum of two of them is the exact sum rounded to the nearest double, a tie going to
  the double with the even significand. \<open>bit_length a\<close> is the number of bits of \<open>a\<close>;
  \<open>round_double\<close> drops the bits beyond the 53rd and rounds. (The sums taken here stay
  far below \<open>2 ^ 1024\<close>, where a double would overflow.)
\<close>

fun bit_length :: "nat \<Rightarrow> nat" where
  "bit_length n = (if n = 0 then 0 else Suc (bit_length (n div 2)))"

declare bit_length.simps [simp del]

definition round_double :: "int \<Rightarrow> int" where
  "round_double n =
     (let a = nat \<bar>n\<bar>;
          u = 2 ^ (bit_length a - 53);
          m = a div u;
          r = a mod u;
          m' = (if 2 * r < u then m
                else if u < 2 * r then m + 1
                else if even m then m else m + 1)
      in sgn n * int (m' * u))"

definition js_add :: "int \<Rightarrow> int \<Rightarrow> int" where
  "js_add x y = round_double (x + y)"

text \<open>
  What an unchecked read delivers. The \<^verbatim>\<open>data\<close> of a response is the decoded body, taken
  to be of the type the client declares, or, when the body does not decode, its raw
  text: the HTTP library hands the text over without an error. The result of
  \<^verbatim>\<open>JSON.parse\<close> is any JSON value.
\<close>

datatype 'a payload = Decoded 'a | Raw string

datatype js_value =
    JNull
  | JBool bool
  | JNumber rat
  | JString string
  | JArray "js_value list"
  | JObject "(string \<times> js_value) list"

text \<open>
  The state held by the \<^verbatim>\<open>App\<close> component, and the alerts shown to the user so far.
  The catalog is whatever the list request delivered.
\<close>

record App =
  products :: "Product list payload"
  loading :: bool
  cartItems :: "CartItem list"
  alerts :: "string list"

text \<open>A thrown JavaScript value.\<close>

datatype js_error = Error string | SyntaxError string | TypeError string | AxiosError string

section \<open>Cart handlers of \<^verbatim>\<open>App.tsx\<close>\<close>

text \<open>
  The function handed to \<^verbatim>\<open>setCartItems\<close> by \<^verbatim>\<open>handleAddToCart\<close>. \<^verbatim>\<open>prev.find\<close> returns
  the first matching item or \<^verbatim>\<open>undefined\<close>; an item is an object, hence truthy.
\<close>

definition addToCart_update :: "Product \<Rightarrow> CartItem list \<Rightarrow> CartItem list" where
  "addToCart_update p prev =
     (case find (\<lambda>item. id' (product item) = id' p) prev of
        Some existing \<Rightarrow>
          map (\<lambda>item. if id' (product item) = id' p
                       then item\<lparr>quantity := js_add (quantity item) 1\<rparr>
                       else item) prev
      | None \<Rightarrow> prev @ [\<lparr>product = p, quantity = 1\<rparr>])"
text \<open>
  \<^verbatim>\<open>handleAddToCart\<close>: a product whose id is falsy (the empty string) makes the handler
  throw; its own \<^verbatim>\<open>catch\<close> turns that into an alert and the cart is left as it was.
  (A \<^verbatim>\<open>Product\<close> value is never \<^verbatim>\<open>null\<close> here.)
\<close>

definition handleAddToCart :: "Product \<Rightarrow> App \<Rightarrow> App" where
  "handleAddToCart p st =
     (if id' p = []
      then st\<lparr>alerts := alerts st @
        [''We couldn't add this item to your cart because the product data was invalid.'']\<rparr>
      else st\<lparr>cartItems := addToCart_update p (cartItems st)\<rparr>)"

definition handleRemoveFromCart :: "string \<Rightarrow> App \<Rightarrow> App" where
  "handleRemoveFromCart productId st =
     st\<lparr>cartItems := filter (\<lambda>item. id' (product item) \<noteq> productId) (cartItems st)\<rparr>"

definition handleUpdateCartQuantity :: "string \<Rightarrow> int \<Rightarrow> App \<Rightarrow> App" where
  "handleUpdateCartQuantity productId n st =
     (if n \<le> 0
      then st\<lparr>cartItems := filter (\<lambda>item. id' (product item) \<noteq> productId) (cartItems st)\<rparr>
      else st\<lparr>cartItems :=
             map (\<lambda>item. if id' (product item) = productId
                          then item\<lparr>quantity := n\<rparr> else item) (cartItems st)\<rparr>)"

definition handleClearCart :: "App \<Rightarrow> App" where
  "handleClearCart st = st\<lparr>cartItems := []\<rparr>"

text \<open>The product ids of a cart, in order.\<close>

definition cart_ids :: "CartItem list \<Rightarrow> string list" where
  "cart_ids cart = map (\<lambda>item. id' (product item)) cart"


section \<open>The remote client, \<^verbatim>\<open>productsApi.ts\<close>\<close>

text \<open>
  An awaited promise is modelled by how it settles: \<open>Inl\<close> the value it rejects with,
  \<open>Inr\<close> the value it fulfils with. Each client function is given the way its
  \<^verbatim>\<open>axios\<close> call settles, and returns the alerts it raises together with the way its
  own promise settles. A fulfilled call hands on \<^verbatim>\<open>response.data\<close> as it is.
\<close>

type_synonym 'a settled = "js_error + 'a"

definition getProducts ::
  "Product list payload settled \<Rightarrow> string list \<times> Product list payload settled" where
  "getProducts response =
     (case response of
        Inr data \<Rightarrow> ([], Inr data)
      | Inl error \<Rightarrow>
          ([''We couldn't load the product list from the server. '' @
            ''This may be due to a network issue or the API being unavailable.''],
           Inr (Decoded [])))"

definition getProduct ::
  "string \<Rightarrow> Product payload settled \<Rightarrow> string list \<times> Product payload settled" where
  "getProduct ident response =
     (case response of
        Inr data \<Rightarrow> ([], Inr data)
      | Inl error \<Rightarrow>
          ([''We couldn't load the product with ID '' @ ident @ ''. '' @
            ''It may have been deleted or the server may be unavailable.''],
           Inl error))"

definition createProduct ::
  "Product \<Rightarrow> Product payload settled \<Rightarrow> string list \<times> Product payload settled" where
  "createProduct p response =
     (case response of
        Inr data \<Rightarrow> ([], Inr data)
      | Inl error \<Rightarrow>
          ([''We couldn't create this product. '' @
            ''Please check your input or try again later.''],
           Inl error))"

definition updateProduct ::
  "string \<Rightarrow> Product \<Rightarrow> Product payload settled \<Rightarrow>
     string list \<times> Product payload settled" where
  "updateProduct ident p response =
     (case response of
        Inr data \<Rightarrow> ([], Inr data)
      | Inl error \<Rightarrow>
          ([''We couldn't update this product. '' @
            ''The server may be unavailable or the product may no longer exist.''],
           Inl error))"

text \<open>\<^verbatim>\<open>deleteProduct\<close> does not look at the response of a fulfilled call.\<close>

definition deleteProduct :: "string \<Rightarrow> 'a settled \<Rightarrow> string list \<times> unit settled" where
  "deleteProduct ident response =
     (case response of
        Inr r \<Rightarrow> ([], Inr ())
      | Inl error \<Rightarrow>
          ([''We couldn't delete this product. '' @
            ''It may have already been removed or the server may be unavailable.''],
           Inl error))"

section \<open>Start-up and catalog handlers of \<^verbatim>\<open>App.tsx\<close>\<close>

text \<open>
  The initializer of the cart state. \<open>saved\<close> is how \<^verbatim>\<open>localStorage.getItem("cart")\<close>
  ends: it throws, or returns \<^verbatim>\<open>null\<close> (\<open>None\<close>) or the stored text. \<open>JSON_parse\<close> is the
  host's parser, a parameter: it throws on a text that is not JSON and returns the value
  of any text that is. The empty text is falsy and is not parsed. The initializer
  returns what the parser returned, unchecked; \<^verbatim>\<open>[]\<close> is \<open>JArray []\<close>.
\<close>

definition cartItems_init ::
  "(string \<Rightarrow> js_error + js_value) \<Rightarrow> string option settled \<Rightarrow> string list \<times> js_value" where
  "cartItems_init JSON_parse saved =
     (let reset =
        ([''We couldn't load your saved cart because the data was invalid. '' @
          ''Your cart has been reset.''], JArray [])
      in case saved of
           Inl error \<Rightarrow> reset
         | Inr None \<Rightarrow> ([], JArray [])
         | Inr (Some text) \<Rightarrow>
             if text = [] then ([], JArray [])
             else (case JSON_parse text of
                     Inr parsed \<Rightarrow> ([], parsed)
                   | Inl error \<Rightarrow> reset))"

text \<open>
  The first thing every render does with the cart state is to read its length, for the
  badge of the navigation bar: \<^verbatim>\<open>cartCount={cartItems.length}\<close>. Reading a property of
  \<^verbatim>\<open>null\<close> throws; an array and a text have a length; on any other value the property
  is looked up and is \<^verbatim>\<open>undefined\<close> (\<open>None\<close>) when it is missing. In an object a later
  entry overrides an earlier one with the same key.
\<close>

fun cartCount :: "js_value \<Rightarrow> js_error + js_value option" where
  "cartCount JNull = Inl (TypeError ''Cannot read properties of null (reading 'length')'')"
| "cartCount (JArray items) = Inr (Some (JNumber (of_nat (length items))))"
| "cartCount (JString text) = Inr (Some (JNumber (of_nat (length text))))"
| "cartCount (JObject entries) = Inr (map_of (rev entries) ''length'')"
| "cartCount (JBool b) = Inr None"
| "cartCount (JNumber x) = Inr None"

text \<open>
  The state of the component when it is first rendered, for an initial cart that is a
  list of cart items; \<open>msgs\<close> are the alerts of the initializer.
\<close>

definition App_start :: "string list \<Rightarrow> CartItem list \<Rightarrow> App" where
  "App_start msgs cart =
     \<lparr>products = Decoded [], loading = True, cartItems = cart, alerts = msgs\<rparr>"

text \<open>The \<^verbatim>\<open>load\<close> function of the start-up effect, with its \<^verbatim>\<open>finally\<close> clause.\<close>

definition load :: "Product list payload settled \<Rightarrow> App \<Rightarrow> App" where
  "load response st =
     (case getProducts response of
        (msgs, Inr data) \<Rightarrow>
          st\<lparr>products := data, loading := False, alerts := alerts st @ msgs\<rparr>
      | (msgs, Inl error) \<Rightarrow>
          st\<lparr>loading := False,
             alerts := alerts st @ msgs @
               [''We couldn't load the product list. '' @
                ''Please check your internet connection or try again later.'']\<rparr>)"

text \<open>
  The catalog handlers for update and delete. Each is given the way the request
  settles; \<open>st\<close> is the state the handler was created in and completes in. When the
  catalog state is a text, it has no \<^verbatim>\<open>map\<close> or \<^verbatim>\<open>filter\<close>: the call throws inside the
  \<^verbatim>\<open>try\<close> and ends in the alert of the \<^verbatim>\<open>catch\<close>. When the saved product is a text, its
  \<^verbatim>\<open>id\<close> is \<^verbatim>\<open>undefined\<close>, which is the id of no product, and the catalog is set to a copy
  of itself.
\<close>

definition handleUpdateProduct :: "Product \<Rightarrow> Product payload settled \<Rightarrow> App \<Rightarrow> App" where
  "handleUpdateProduct updated response st =
     (let failed = ''We couldn't update this product. '' @
                   ''Please try again or check your connection.''
      in case updateProduct (id' updated) updated response of
           (msgs, Inr saved) \<Rightarrow>
             (case products st of
                Decoded ps \<Rightarrow>
                  st\<lparr>products :=
                       Decoded (map (\<lambda>p. case saved of
                                            Decoded s \<Rightarrow> if id' p = id' s then s else p
                                          | Raw text \<Rightarrow> p) ps),
                     alerts := alerts st @ msgs\<rparr>
              | Raw text \<Rightarrow> st\<lparr>alerts := alerts st @ msgs @ [failed]\<rparr>)
         | (msgs, Inl error) \<Rightarrow> st\<lparr>alerts := alerts st @ msgs @ [failed]\<rparr>)"

definition handleDeleteProduct :: "string \<Rightarrow> 'a settled \<Rightarrow> App \<Rightarrow> App" where
  "handleDeleteProduct ident response st =
     (let failed = ''We couldn't delete this product. '' @
                   ''It may have already been removed or the server may be unavailable.''
      in case deleteProduct ident response of
           (msgs, Inr u) \<Rightarrow>
             (case products st of
                Decoded ps \<Rightarrow>
                  st\<lparr>products := Decoded (filter (\<lambda>p. id' p \<noteq> ident) ps),
                     alerts := alerts st @ msgs\<rparr>
              | Raw text \<Rightarrow> st\<lparr>alerts := alerts st @ msgs @ [failed]\<rparr>)
         | (msgs, Inl error) \<Rightarrow> st\<lparr>alerts := alerts st @ msgs @ [failed]\<rparr>)"

section \<open>The filter and sort pipeline of \<^verbatim>\<open>ProductsPage.tsx\<close>\<close>

text \<open>
  Host primitives. \<^verbatim>\<open>String.prototype.toLowerCase\<close> is the host's Unicode lower-casing
  (the default case conversion of the Unicode standard, with the mappings of its
  special casing table that do not depend on a language, among them the final sigma);
  it is a parameter of the pipeline. \<open>includes_str s t\<close> is \<^verbatim>\<open>s.includes(t)\<close>: \<open>t\<close> occurs
  in \<open>s\<close> as a contiguous piece.
\<close>

fun includes_str :: "js_string \<Rightarrow> js_string \<Rightarrow> bool" where
  "includes_str [] t = (t = [])"
| "includes_str (c # cs) t = (prefix t (c # cs) \<or> includes_str cs t)"

text \<open>
  The value of \<^verbatim>\<open>Number(text)\<close> is a JavaScript number, which may be \<^verbatim>\<open>NaN\<close> or infinite;
  \<open>js_ge x y\<close> is \<^verbatim>\<open>x >= y\<close> and \<open>js_le x y\<close> is \<^verbatim>\<open>x <= y\<close> for a finite \<open>x\<close>. The
  conversion \<^verbatim>\<open>Number\<close> itself is a parameter of the pipeline.
\<close>

datatype jsnum = NaN | NegInf | Fin rat | PosInf

fun js_ge :: "rat \<Rightarrow> jsnum \<Rightarrow> bool" where
  "js_ge x NaN = False"
| "js_ge x NegInf = True"
| "js_ge x (Fin y) = (y \<le> x)"
| "js_ge x PosInf = False"

fun js_le :: "rat \<Rightarrow> jsnum \<Rightarrow> bool" where
  "js_le x NaN = False"
| "js_le x NegInf = False"
| "js_le x (Fin y) = (x \<le> y)"
| "js_le x PosInf = True"

text \<open>
  Stages 1 and 2: the search filter, then the price range filter. No step of either
  filter throws, so the \<^verbatim>\<open>catch\<close> clause around the second one is never entered.
\<close>

definition filteredProducts ::
  "(js_string \<Rightarrow> js_string) \<Rightarrow> (string \<Rightarrow> jsnum) \<Rightarrow> Product list \<Rightarrow>
     js_string \<Rightarrow> string \<Rightarrow> string \<Rightarrow> Product list" where
  "filteredProducts toLowerCase Number ps search minPrice maxPrice =
     filter (\<lambda>p. let meetsMin = (minPrice = [] \<or> js_ge (price p) (Number minPrice));
                     meetsMax = (maxPrice = [] \<or> js_le (price p) (Number maxPrice))
                 in meetsMin \<and> meetsMax)
       (filter (\<lambda>p. includes_str (toLowerCase (name p)) (toLowerCase search)) ps)"

text \<open>
  \<^verbatim>\<open>Array.prototype.sort\<close> with a comparison function is a stable sort: \<open>a\<close> is placed
  after \<open>b\<close> exactly when it has to be, that is when \<open>cmp a b > 0\<close>. It is modelled by
  insertion from the right, which keeps the order of elements that compare equal.
\<close>

fun insert_cmp :: "('a \<Rightarrow> 'a \<Rightarrow> rat) \<Rightarrow> 'a \<Rightarrow> 'a list \<Rightarrow> 'a list" where
  "insert_cmp cmp x [] = [x]"
| "insert_cmp cmp x (y # ys) = (if cmp x y > 0 then y # insert_cmp cmp x ys else x # y # ys)"

fun sort_cmp :: "('a \<Rightarrow> 'a \<Rightarrow> rat) \<Rightarrow> 'a list \<Rightarrow> 'a list" where
  "sort_cmp cmp [] = []"
| "sort_cmp cmp (x # xs) = insert_cmp cmp x (sort_cmp cmp xs)"

text \<open>
  Stage 3: the four tests on \<^verbatim>\<open>sortOption\<close>, one after the other. \<open>localeCompare\<close> is the
  host's string comparison, a parameter.
\<close>

definition sortProducts ::
  "(js_string \<Rightarrow> js_string \<Rightarrow> rat) \<Rightarrow> string \<Rightarrow> Product list \<Rightarrow> Product list" where
  "sortProducts localeCompare sortOption ps =
     (let ps1 = (if sortOption = ''price-asc''
                 then sort_cmp (\<lambda>a b. price a - price b) ps else ps);
          ps2 = (if sortOption = ''price-desc''
                 then sort_cmp (\<lambda>a b. price b - price a) ps1 else ps1);
          ps3 = (if sortOption = ''name-asc''
                 then sort_cmp (\<lambda>a b. localeCompare (name a) (name b)) ps2 else ps2);
          ps4 = (if sortOption = ''name-desc''
                 then sort_cmp (\<lambda>a b. localeCompare (name b) (name a)) ps3 else ps3)
      in ps4)"

text \<open>The list the page renders.\<close>

definition visibleProducts ::
  "(js_string \<Rightarrow> js_string) \<Rightarrow> (string \<Rightarrow> jsnum) \<Rightarrow> (js_string \<Rightarrow> js_string \<Rightarrow> rat) \<Rightarrow>
     Product list \<Rightarrow> js_string \<Rightarrow> string \<Rightarrow> string \<Rightarrow> string \<Rightarrow> Product list" where
  "visibleProducts toLowerCase Number localeCompare ps search minPrice maxPrice sortOption =
     sortProducts localeCompare sortOption
       (filteredProducts toLowerCase Number ps search minPrice maxPrice)"

section \<open>Notions used to state the properties\<close>








section \<open>Sample data\<close>

definition apple :: Product where
  "apple = \<lparr>id' = ''1'', name = utf16 ''Apple Watch'', price = 30, description = None,
            image' = None\<rparr>"

definition banana :: Product where
  "banana = \<lparr>id' = ''2'', name = utf16 ''Banana'', price = 10, description = None,
             image' = None\<rparr>"

definition cherry :: Product where
  "cherry = \<lparr>id' = ''3'', name = utf16 ''Cherry'', price = 20, description = Some ''red'',
             image' = None\<rparr>"

definition app0 :: App where
  "app0 = \<lparr>products = Decoded [apple, banana, cherry], loading = False,
           cartItems = [\<lparr>product = apple, quantity = 1\<rparr>, \<lparr>product = banana, quantity = 3\<rparr>],
           alerts = []\<rparr>"

text \<open>A cart whose one item has the quantity \<open>2 ^ 53\<close>.\<close>

definition app_big :: App where
  "app_big = \<lparr>products = Decoded [apple], loading = False,
              cartItems = [\<lparr>product = apple, quantity = 9007199254740992\<rparr>],
              alerts = []\<rparr>"

text \<open>
  The host's parser on four texts (every other text is refused here), and the host's
  conversion on two numerals.
\<close>

definition parse_sample :: "string \<Rightarrow> js_error + js_value" where
  "parse_sample text =
     (if text = ''[]'' then Inr (JArray [])
      else if text = ''null'' then Inr JNull
      else if text = ''42'' then Inr (JNumber 42)
      else if text = ''{}'' then Inr (JObject [])
      else Inl (SyntaxError text))"

text \<open>The body of an answer that is not JSON.\<close>

definition bad_body :: string where
  "bad_body = ''<html><body>502 Bad Gateway</body></html>''"


definition localeCompare_sample :: "js_string \<Rightarrow> js_string \<Rightarrow> rat" where
  "localeCompare_sample a b = (if a = b then 0 else if length a < length b then - 1 else 1)"





section \<open>Properties of the addition of doubles\<close>

lemma bit_length_le: "a < 2 ^ k \<Longrightarrow> bit_length a \<le> k"
proof (induction k arbitrary: a)
  case 0
  then show ?case by (simp add: bit_length.simps)
next
  case (Suc k)
  show ?case
  proof (cases "a = 0")
    case True
    then show ?thesis by (simp add: bit_length.simps)
  next
    case False
    have "a div 2 < 2 ^ k" using Suc.prems by auto
    then have "bit_length (a div 2) \<le> k" by (rule Suc.IH)
    then show ?thesis using False by (subst bit_length.simps) simp
  qed
qed

lemma bit_length_upper: "a < 2 ^ bit_length a"
proof (induction a rule: bit_length.induct)
  case (1 n)
  show ?case
  proof (cases "n = 0")
    case True
    then show ?thesis by simp
  next
    case False
    then have "n div 2 < 2 ^ bit_length (n div 2)" using 1 by simp
    then have "n < 2 * 2 ^ bit_length (n div 2)" by linarith
    then show ?thesis using False by (subst bit_length.simps) simp
  qed
qed

lemma bit_length_lower: "0 < a \<Longrightarrow> 2 ^ (bit_length a - 1) \<le> a"
proof (induction a rule: bit_length.induct)
  case (1 n)
  have n: "bit_length n = Suc (bit_length (n div 2))"
    using 1(2) by (subst bit_length.simps) simp
  show ?case
  proof (cases "n div 2 = 0")
    case True
    then have "bit_length (n div 2) = 0" by (simp add: bit_length.simps)
    then show ?thesis using n 1(2) by simp
  next
    case False
    then have ih: "2 ^ (bit_length (n div 2) - 1) \<le> n div 2" using 1 by simp
    have "0 < bit_length (n div 2)" using False by (subst bit_length.simps) simp
    then have "2 ^ (bit_length n - 1) = 2 * 2 ^ (bit_length (n div 2) - 1)"
      using n by (cases "bit_length (n div 2)") simp_all
    also have "\<dots> \<le> 2 * (n div 2)" using ih by simp
    also have "\<dots> \<le> n" by simp
    finally show ?thesis .
  qed
qed

lemma bit_length_binade: "2 ^ k \<le> a \<Longrightarrow> a < 2 ^ Suc k \<Longrightarrow> bit_length a = Suc k"
proof -
  assume lo: "2 ^ k \<le> a" and hi: "a < 2 ^ Suc k"
  have "(2::nat) ^ k < 2 ^ bit_length a"
    using lo bit_length_upper [of a] by linarith
  then have "k < bit_length a" by (simp add: power_strict_increasing_iff)
  moreover have "bit_length a \<le> Suc k" using hi by (rule bit_length_le)
  ultimately show ?thesis by simp
qed

text \<open>An integer of magnitude up to \<open>2 ^ 53\<close> is a double.\<close>

lemma round_double_exact:
  assumes "\<bar>n\<bar> \<le> 2 ^ 53"
  shows "round_double n = n"
proof (cases "\<bar>n\<bar> < 2 ^ 53")
  case True
  then have "nat \<bar>n\<bar> < 2 ^ 53" by (simp add: nat_less_iff)
  then have "bit_length (nat \<bar>n\<bar>) \<le> 53" by (rule bit_length_le)
  then have "bit_length (nat \<bar>n\<bar>) - 53 = 0" by simp
  then have "round_double n = sgn n * int (nat \<bar>n\<bar>)"
    by (simp add: round_double_def Let_def)
  then show ?thesis by (simp add: mult_sgn_abs)
next
  case False
  then have a: "nat \<bar>n\<bar> = 2 ^ 53" using assms by (simp add: nat_eq_iff)
  have "bit_length (nat \<bar>n\<bar>) = Suc 53"
    by (rule bit_length_binade) (simp_all add: a)
  then have "round_double n = sgn n * int (nat \<bar>n\<bar>)"
    unfolding round_double_def Let_def a by simp
  then show ?thesis by (simp add: mult_sgn_abs)
qed

text \<open>Between \<open>2 ^ 53\<close> and \<open>2 ^ 54\<close> the doubles are the even integers.\<close>

lemma round_double_odd:
  assumes "2 ^ 53 \<le> n" "n < 2 ^ 54" "odd n"
  shows "round_double n = (if even (n div 2) then n - 1 else n + 1)"
proof -
  define a where "a = nat n"
  have "(0::int) < 2 ^ 53" by simp
  then have pos: "0 < n" using assms(1) by linarith
  then have n: "n = int a" "\<bar>n\<bar> = n" "sgn n = 1" by (simp_all add: a_def)
  have a: "2 ^ 53 \<le> a" "a < 2 ^ 54" "odd a"
    using assms pos by (simp_all add: a_def le_nat_iff nat_less_iff even_nat_iff)
  have bl: "bit_length a = Suc 53"
    using a(1,2) by (intro bit_length_binade) simp_all
  have r: "a mod 2 = 1" using a(3) by (simp add: odd_iff_mod_2_eq_one)
  have d: "2 * (a div 2) + 1 = a" using r div_mult_mod_eq [of a 2] by simp
  have e: "even (n div 2) \<longleftrightarrow> even (a div 2)"
    unfolding n(1) by (metis even_of_nat of_nat_div of_nat_numeral)
  have "round_double n = int ((if even (a div 2) then a div 2 else a div 2 + 1) * 2)"
    unfolding round_double_def Let_def n(2) n(3) a_def [symmetric] bl using r by simp
  also have "\<dots> = (if even (a div 2) then int a - 1 else int a + 1)"
    using d by (simp split: if_splits)
  finally show ?thesis by (simp add: e flip: n(1))
qed

lemma round_double_ge_1:
  assumes "1 \<le> n"
  shows "1 \<le> round_double n"
proof -
  define a where "a = nat \<bar>n\<bar>"
  define u :: nat where "u = 2 ^ (bit_length a - 53)"
  define m' where "m' = (if 2 * (a mod u) < u then a div u
              else if u < 2 * (a mod u) then a div u + 1
              else if even (a div u) then a div u else a div u + 1)"
  have apos: "0 < a" using assms by (simp add: a_def)
  have "u \<le> 2 ^ (bit_length a - 1)"
    unfolding u_def by (rule power_increasing) simp_all
  also have "\<dots> \<le> a" using apos by (rule bit_length_lower)
  finally have ua: "u \<le> a" .
  have upos: "0 < u" by (simp add: u_def)
  have "1 \<le> a div u" using ua upos by (simp add: div_greater_zero_iff Suc_leI)
  then have "1 \<le> m'" by (simp add: m'_def)
  then have "0 < m' * u" using upos by simp
  then have "1 \<le> int (m' * u)" by linarith
  moreover have "round_double n = int (m' * u)"
    using assms unfolding round_double_def Let_def a_def [symmetric] u_def [symmetric]
      m'_def [symmetric] by simp
  ultimately show ?thesis by simp
qed

lemma js_add_exact: "\<bar>x + y\<bar> \<le> 2 ^ 53 \<Longrightarrow> js_add x y = x + y"
  by (simp add: js_add_def round_double_exact)

lemma js_add_1_1: "js_add 1 1 = 2"
  by (simp add: js_add_exact)

lemma js_add_limit: "js_add 9007199254740992 1 = 9007199254740992"
  unfolding js_add_def using round_double_odd [of 9007199254740993] by simp

lemma js_add_ge_1: "1 \<le> q \<Longrightarrow> 1 \<le> js_add q 1"
  unfolding js_add_def by (rule round_double_ge_1) simp

section \<open>Properties of the cart handlers\<close>


lemma find_None_ids:
  "find (\<lambda>item. id' (product item) = k) cart = None \<longleftrightarrow> k \<notin> set (cart_ids cart)"
  by (auto simp: find_None_iff cart_ids_def)

lemma addToCart_update_present:
  "id' p \<in> set (cart_ids prev) \<Longrightarrow>
   addToCart_update p prev =
     map (\<lambda>item. if id' (product item) = id' p
                  then item\<lparr>quantity := js_add (quantity item) 1\<rparr> else item) prev"
  using find_None_ids [of "id' p" prev]
  by (cases "find (\<lambda>item. id' (product item) = id' p) prev") (simp_all add: addToCart_update_def)

lemma addToCart_update_absent:
  "id' p \<notin> set (cart_ids prev) \<Longrightarrow>
   addToCart_update p prev = prev @ [\<lparr>product = p, quantity = 1\<rparr>]"
  using find_None_ids [of "id' p" prev]
  by (simp add: addToCart_update_def)

lemma cart_ids_bump:
  "cart_ids (map (\<lambda>item. if id' (product item) = k then item\<lparr>quantity := f item\<rparr> else item) cart)
     = cart_ids cart"
  by (simp add: cart_ids_def)

lemma cart_ids_filter:
  "cart_ids (filter (\<lambda>item. id' (product item) \<noteq> k) cart) = filter (\<lambda>i. i \<noteq> k) (cart_ids cart)"
  by (simp add: cart_ids_def filter_map comp_def)

lemma map_distinct_update:
  assumes "distinct (cart_ids cart)" "i < length cart" "id' (product (cart ! i)) = k"
  shows "map (\<lambda>item. if id' (product item) = k then g item else item) cart = cart[i := g (cart ! i)]"
proof (rule nth_equalityI)
  show "length (map (\<lambda>item. if id' (product item) = k then g item else item) cart) = length (cart[i := g (cart ! i)])"
    by simp
next
  fix j assume j: "j < length (map (\<lambda>item. if id' (product item) = k then g item else item) cart)"
  then have jl: "j < length cart" by simp
  show "map (\<lambda>item. if id' (product item) = k then g item else item) cart ! j = cart[i := g (cart ! i)] ! j"
  proof (cases "j = i")
    case True
    then show ?thesis using assms by simp
  next
    case False
    have "cart_ids cart ! j \<noteq> cart_ids cart ! i"
      using nth_eq_iff_index_eq [of "cart_ids cart" j i] assms(1,2) jl False
      by (simp add: cart_ids_def del: nth_map)
    then have "id' (product (cart ! j)) \<noteq> k"
      using assms(2,3) jl by (simp add: cart_ids_def)
    then show ?thesis using jl False by simp
  qed
qed

text \<open>
  C1. Adding a product with a non-empty id. If the cart holds an item with that product
  id, the cart keeps its length, every item with another id is unchanged, and every item
  with that id keeps its product snapshot and gets the double nearest to its quantity
  plus one; that is its quantity plus one whenever the quantity is below \<open>2 ^ 53\<close> in
  magnitude. When, moreover, ids are pairwise distinct, this is the update of the one
  position that holds the id. If no item has the id, the item with quantity 1 is
  appended. Adding the same product twice to the empty cart gives the single entry with
  quantity 2.
\<close>

theorem handleAddToCart_spec:
  assumes "id' p \<noteq> []"
  shows "(id' p \<in> set (cart_ids (cartItems st)) \<longrightarrow>
            length (cartItems (handleAddToCart p st)) = length (cartItems st) \<and>
            (\<forall>i < length (cartItems st).
               cartItems (handleAddToCart p st) ! i =
                 (if id' (product (cartItems st ! i)) = id' p
                  then (cartItems st ! i)\<lparr>quantity := js_add (quantity (cartItems st ! i)) 1\<rparr>
                  else cartItems st ! i)) \<and>
            (\<forall>i < length (cartItems st).
               id' (product (cartItems st ! i)) = id' p \<and>
               \<bar>quantity (cartItems st ! i)\<bar> < 2 ^ 53 \<longrightarrow>
               cartItems (handleAddToCart p st) ! i =
                 (cartItems st ! i)\<lparr>quantity := quantity (cartItems st ! i) + 1\<rparr>) \<and>
            (\<forall>i < length (cartItems st).
               distinct (cart_ids (cartItems st)) \<and> id' (product (cartItems st ! i)) = id' p \<and>
               \<bar>quantity (cartItems st ! i)\<bar> < 2 ^ 53 \<longrightarrow>
               cartItems (handleAddToCart p st) =
                 (cartItems st)[i := (cartItems st ! i)\<lparr>quantity := quantity (cartItems st ! i) + 1\<rparr>]))
       \<and> (id' p \<notin> set (cart_ids (cartItems st)) \<longrightarrow>
            cartItems (handleAddToCart p st) = cartItems st @ [\<lparr>product = p, quantity = 1\<rparr>])
       \<and> cartItems (handleAddToCart p (handleAddToCart p (st\<lparr>cartItems := []\<rparr>)))
            = [\<lparr>product = p, quantity = 2\<rparr>]"
proof (intro conjI impI allI)
  assume "id' p \<in> set (cart_ids (cartItems st))"
  then show "length (cartItems (handleAddToCart p st)) = length (cartItems st)"
    using assms by (simp add: handleAddToCart_def addToCart_update_present)
next
  fix i
  assume "id' p \<in> set (cart_ids (cartItems st))" "i < length (cartItems st)"
  then show "cartItems (handleAddToCart p st) ! i =
                 (if id' (product (cartItems st ! i)) = id' p
                  then (cartItems st ! i)\<lparr>quantity := js_add (quantity (cartItems st ! i)) 1\<rparr>
                  else cartItems st ! i)"
    using assms by (simp add: handleAddToCart_def addToCart_update_present)
next
  fix i
  assume a: "id' p \<in> set (cart_ids (cartItems st))" "i < length (cartItems st)"
    "id' (product (cartItems st ! i)) = id' p \<and> \<bar>quantity (cartItems st ! i)\<bar> < 2 ^ 53"
  have "\<bar>quantity (cartItems st ! i) + 1\<bar> \<le> 2 ^ 53" using a(3) by linarith
  then have "js_add (quantity (cartItems st ! i)) 1 = quantity (cartItems st ! i) + 1"
    by (rule js_add_exact)
  then show "cartItems (handleAddToCart p st) ! i =
               (cartItems st ! i)\<lparr>quantity := quantity (cartItems st ! i) + 1\<rparr>"
    using assms a by (simp add: handleAddToCart_def addToCart_update_present)
next
  fix i
  assume a: "id' p \<in> set (cart_ids (cartItems st))" "i < length (cartItems st)"
    "distinct (cart_ids (cartItems st)) \<and> id' (product (cartItems st ! i)) = id' p \<and>
     \<bar>quantity (cartItems st ! i)\<bar> < 2 ^ 53"
  have "\<bar>quantity (cartItems st ! i) + 1\<bar> \<le> 2 ^ 53" using a(3) by linarith
  then have q: "js_add (quantity (cartItems st ! i)) 1 = quantity (cartItems st ! i) + 1"
    by (rule js_add_exact)
  have "cartItems (handleAddToCart p st) =
      map (\<lambda>item. if id' (product item) = id' p
                  then item\<lparr>quantity := js_add (quantity item) 1\<rparr> else item) (cartItems st)"
    using assms a(1) by (simp add: handleAddToCart_def addToCart_update_present)
  also have "\<dots> = (cartItems st)[i := (cartItems st ! i)\<lparr>quantity := js_add (quantity (cartItems st ! i)) 1\<rparr>]"
    using a(2,3) by (intro map_distinct_update) simp_all
  finally show "cartItems (handleAddToCart p st) =
      (cartItems st)[i := (cartItems st ! i)\<lparr>quantity := quantity (cartItems st ! i) + 1\<rparr>]"
    unfolding q .
next
  assume "id' p \<notin> set (cart_ids (cartItems st))"
  then show "cartItems (handleAddToCart p st) = cartItems st @ [\<lparr>product = p, quantity = 1\<rparr>]"
    using assms by (simp add: handleAddToCart_def addToCart_update_absent)
next
  show "cartItems (handleAddToCart p (handleAddToCart p (st\<lparr>cartItems := []\<rparr>)))
            = [\<lparr>product = p, quantity = 2\<rparr>]"
    using assms by (simp add: handleAddToCart_def addToCart_update_def js_add_1_1)
qed

theorem handleAddToCart_spec_witness:
  "id' banana \<noteq> [] \<and> id' banana \<in> set (cart_ids (cartItems app0)) \<and>
   id' cherry \<notin> set (cart_ids (cartItems app0)) \<and> distinct (cart_ids (cartItems app0)) \<and>
   \<bar>quantity (cartItems app0 ! 1)\<bar> < 2 ^ 53 \<and>
   cartItems (handleAddToCart banana app0)
     = [\<lparr>product = apple, quantity = 1\<rparr>, \<lparr>product = banana, quantity = 4\<rparr>] \<and>
   cartItems (handleAddToCart cherry app0)
     = [\<lparr>product = apple, quantity = 1\<rparr>, \<lparr>product = banana, quantity = 3\<rparr>,
        \<lparr>product = cherry, quantity = 1\<rparr>] \<and>
   cartItems (handleAddToCart banana (handleAddToCart banana (app0\<lparr>cartItems := []\<rparr>)))
     = [\<lparr>product = banana, quantity = 2\<rparr>]"
proof -
  have b: "id' banana \<noteq> []" and c: "id' cherry \<noteq> []"
    by (simp_all add: banana_def cherry_def)
  have facts: "id' banana \<in> set (cart_ids (cartItems app0))"
    "id' cherry \<notin> set (cart_ids (cartItems app0))"
    "distinct (cart_ids (cartItems app0))"
    "id' (product (cartItems app0 ! 1)) = id' banana"
    "\<bar>quantity (cartItems app0 ! 1)\<bar> < 2 ^ 53"
    "(1::nat) < length (cartItems app0)"
    by (simp_all add: app0_def apple_def banana_def cherry_def cart_ids_def)
  have "cartItems (handleAddToCart banana app0)
     = (cartItems app0)[1 := (cartItems app0 ! 1)\<lparr>quantity := quantity (cartItems app0 ! 1) + 1\<rparr>]"
    using handleAddToCart_spec [OF b, of app0] facts by blast
  then have 1: "cartItems (handleAddToCart banana app0)
     = [\<lparr>product = apple, quantity = 1\<rparr>, \<lparr>product = banana, quantity = 4\<rparr>]"
    by (simp add: app0_def)
  have 2: "cartItems (handleAddToCart cherry app0)
     = [\<lparr>product = apple, quantity = 1\<rparr>, \<lparr>product = banana, quantity = 3\<rparr>,
        \<lparr>product = cherry, quantity = 1\<rparr>]"
    using handleAddToCart_spec [OF c, of app0] facts(2) by (simp add: app0_def)
  have 3: "cartItems (handleAddToCart banana (handleAddToCart banana (app0\<lparr>cartItems := []\<rparr>)))
     = [\<lparr>product = banana, quantity = 2\<rparr>]"
    using handleAddToCart_spec [OF b, of app0] by blast
  show ?thesis using b facts(1,2,3,5) 1 2 3 by (intro conjI)
qed

text \<open>
  The cart whose one item has the quantity \<open>2 ^ 53\<close>: adding its product again leaves the
  cart as it is, the quantity is not raised.
\<close>

theorem handleAddToCart_limit_counterexample:
  "id' apple \<noteq> [] \<and> id' apple \<in> set (cart_ids (cartItems app_big)) \<and>
   cartItems (handleAddToCart apple app_big) = cartItems app_big \<and>
   quantity (cartItems (handleAddToCart apple app_big) ! 0)
     \<noteq> quantity (cartItems app_big ! 0) + 1"
  by (simp add: handleAddToCart_def addToCart_update_def app_big_def apple_def cart_ids_def
      js_add_limit)

lemma cart_ids_set_filter:
  "set (cart_ids (filter (\<lambda>item. id' (product item) \<noteq> k) cart)) = set (cart_ids cart) - {k}"
  by (auto simp: cart_ids_filter)

text \<open>
  C2. Setting a quantity. With \<open>n \<le> 0\<close> the result is the cart without the items whose
  product id is the given one, and if the cart held such an item the set of product ids
  of the cart loses exactly that id, so it shrinks by one. With \<open>n > 0\<close> the cart keeps
  its length, every item with the given id has its quantity overwritten by \<open>n\<close> and
  every other item is unchanged.
\<close>

theorem handleUpdateCartQuantity_spec:
  "(n \<le> 0 \<longrightarrow>
      cartItems (handleUpdateCartQuantity k n st)
        = filter (\<lambda>item. id' (product item) \<noteq> k) (cartItems st) \<and>
      k \<notin> set (cart_ids (cartItems (handleUpdateCartQuantity k n st))) \<and>
      (k \<in> set (cart_ids (cartItems st)) \<longrightarrow>
         set (cart_ids (cartItems (handleUpdateCartQuantity k n st)))
           = set (cart_ids (cartItems st)) - {k} \<and>
         card (set (cart_ids (cartItems (handleUpdateCartQuantity k n st)))) + 1
           = card (set (cart_ids (cartItems st)))))
   \<and> (0 < n \<longrightarrow>
      length (cartItems (handleUpdateCartQuantity k n st)) = length (cartItems st) \<and>
      (\<forall>i < length (cartItems st).
         cartItems (handleUpdateCartQuantity k n st) ! i =
           (if id' (product (cartItems st ! i)) = k
            then (cartItems st ! i)\<lparr>quantity := n\<rparr>
            else cartItems st ! i)))"
proof (intro conjI impI)
  assume n: "n \<le> 0"
  then show eq: "cartItems (handleUpdateCartQuantity k n st)
        = filter (\<lambda>item. id' (product item) \<noteq> k) (cartItems st)"
    by (simp add: handleUpdateCartQuantity_def)
  show "k \<notin> set (cart_ids (cartItems (handleUpdateCartQuantity k n st)))"
    unfolding eq cart_ids_set_filter by simp
  assume k: "k \<in> set (cart_ids (cartItems st))"
  show "set (cart_ids (cartItems (handleUpdateCartQuantity k n st)))
           = set (cart_ids (cartItems st)) - {k}"
    unfolding eq by (rule cart_ids_set_filter)
  show "card (set (cart_ids (cartItems (handleUpdateCartQuantity k n st)))) + 1
           = card (set (cart_ids (cartItems st)))"
  proof -
    have "0 < card (set (cart_ids (cartItems st)))"
      using k by (auto simp: card_gt_0_iff)
    then show ?thesis
      unfolding eq cart_ids_set_filter using k by (simp add: card_Diff_singleton)
  qed
next
  assume "0 < n"
  then show "length (cartItems (handleUpdateCartQuantity k n st)) = length (cartItems st)"
    by (simp add: handleUpdateCartQuantity_def)
next
  assume "0 < n"
  then show "\<forall>i < length (cartItems st).
         cartItems (handleUpdateCartQuantity k n st) ! i =
           (if id' (product (cartItems st ! i)) = k
            then (cartItems st ! i)\<lparr>quantity := n\<rparr>
            else cartItems st ! i)"
    by (simp add: handleUpdateCartQuantity_def)
qed

theorem handleUpdateCartQuantity_spec_witness:
  "(0::int) \<le> 0 \<and> (0::int) < 5 \<and> ''2'' \<in> set (cart_ids (cartItems app0)) \<and>
   cartItems (handleUpdateCartQuantity ''2'' 0 app0) = [\<lparr>product = apple, quantity = 1\<rparr>] \<and>
   cartItems (handleUpdateCartQuantity ''2'' (- 4) app0) = [\<lparr>product = apple, quantity = 1\<rparr>] \<and>
   set (cart_ids (cartItems (handleUpdateCartQuantity ''2'' 0 app0))) = {''1''} \<and>
   card (set (cart_ids (cartItems (handleUpdateCartQuantity ''2'' 0 app0)))) + 1
     = card (set (cart_ids (cartItems app0))) \<and>
   cartItems (handleUpdateCartQuantity ''2'' 5 app0)
     = [\<lparr>product = apple, quantity = 1\<rparr>, \<lparr>product = banana, quantity = 5\<rparr>]"
  using handleUpdateCartQuantity_spec [of 0 "''2''" app0]
    handleUpdateCartQuantity_spec [of "- 4" "''2''" app0]
    handleUpdateCartQuantity_spec [of 5 "''2''" app0]
  by (simp add: app0_def apple_def banana_def cart_ids_def handleUpdateCartQuantity_def)

text \<open>
  C3. If the product ids of the cart are pairwise distinct, they are pairwise distinct
  after each of the four cart operations.
\<close>

theorem cart_ids_distinct_preserved:
  assumes "distinct (cart_ids (cartItems st))"
  shows "distinct (cart_ids (cartItems (handleAddToCart p st)))
       \<and> distinct (cart_ids (cartItems (handleRemoveFromCart k st)))
       \<and> distinct (cart_ids (cartItems (handleUpdateCartQuantity k n st)))
       \<and> distinct (cart_ids (cartItems (handleClearCart st)))"
proof (intro conjI)
  show "distinct (cart_ids (cartItems (handleAddToCart p st)))"
  proof (cases "id' p \<in> set (cart_ids (cartItems st))")
    case True
    then show ?thesis
      using assms by (simp add: handleAddToCart_def addToCart_update_present cart_ids_bump)
  next
    case False
    then show ?thesis
      using assms by (simp add: handleAddToCart_def addToCart_update_absent cart_ids_def)
  qed
  show "distinct (cart_ids (cartItems (handleRemoveFromCart k st)))"
    using assms by (simp add: handleRemoveFromCart_def cart_ids_filter)
  show "distinct (cart_ids (cartItems (handleUpdateCartQuantity k n st)))"
    using assms by (simp add: handleUpdateCartQuantity_def cart_ids_filter cart_ids_bump)
  show "distinct (cart_ids (cartItems (handleClearCart st)))"
    by (simp add: handleClearCart_def cart_ids_def)
qed

theorem cart_ids_distinct_preserved_witness:
  "distinct (cart_ids (cartItems app0))
   \<and> distinct (cart_ids (cartItems (handleAddToCart banana app0)))
   \<and> distinct (cart_ids (cartItems (handleAddToCart cherry app0)))
   \<and> distinct (cart_ids (cartItems (handleRemoveFromCart ''1'' app0)))
   \<and> distinct (cart_ids (cartItems (handleUpdateCartQuantity ''1'' 7 app0)))
   \<and> distinct (cart_ids (cartItems (handleClearCart app0)))"
proof -
  have d: "distinct (cart_ids (cartItems app0))"
    by (simp add: app0_def apple_def banana_def cart_ids_def)
  show ?thesis
    using d cart_ids_distinct_preserved [OF d, of banana "''1''" 7]
      cart_ids_distinct_preserved [OF d, of cherry "''1''" 7]
    by simp
qed

text \<open>
  C4. If every quantity in the cart is at least 1, every quantity is at least 1 after
  each of the four cart operations; a quantity of 0 or less is never stored, the items
  with the given product id are removed instead.
\<close>

theorem cart_quantity_positive_preserved:
  assumes "\<forall>item \<in> set (cartItems st). 1 \<le> quantity item"
  shows "(\<forall>item \<in> set (cartItems (handleAddToCart p st)). 1 \<le> quantity item)
       \<and> (\<forall>item \<in> set (cartItems (handleRemoveFromCart k st)). 1 \<le> quantity item)
       \<and> (\<forall>item \<in> set (cartItems (handleUpdateCartQuantity k n st)). 1 \<le> quantity item)
       \<and> (\<forall>item \<in> set (cartItems (handleClearCart st)). 1 \<le> quantity item)
       \<and> (n \<le> 0 \<longrightarrow> k \<notin> set (cart_ids (cartItems (handleUpdateCartQuantity k n st))))"
proof (intro conjI)
  show "\<forall>item \<in> set (cartItems (handleAddToCart p st)). 1 \<le> quantity item"
  proof (cases "id' p \<in> set (cart_ids (cartItems st))")
    case True
    then show ?thesis
      using assms by (auto simp: handleAddToCart_def addToCart_update_present js_add_ge_1)
  next
    case False
    then show ?thesis
      using assms by (auto simp: handleAddToCart_def addToCart_update_absent)
  qed
  show "\<forall>item \<in> set (cartItems (handleRemoveFromCart k st)). 1 \<le> quantity item"
    using assms by (simp add: handleRemoveFromCart_def)
  show "\<forall>item \<in> set (cartItems (handleUpdateCartQuantity k n st)). 1 \<le> quantity item"
    using assms by (auto simp: handleUpdateCartQuantity_def)
  show "\<forall>item \<in> set (cartItems (handleClearCart st)). 1 \<le> quantity item"
    by (simp add: handleClearCart_def)
  show "n \<le> 0 \<longrightarrow> k \<notin> set (cart_ids (cartItems (handleUpdateCartQuantity k n st)))"
    by (simp add: handleUpdateCartQuantity_def cart_ids_set_filter)
qed

theorem cart_quantity_positive_preserved_witness:
  "list_all (\<lambda>item. 1 \<le> quantity item) (cartItems app0)
   \<and> list_all (\<lambda>item. 1 \<le> quantity item) (cartItems (handleAddToCart banana app0))
   \<and> list_all (\<lambda>item. 1 \<le> quantity item) (cartItems (handleRemoveFromCart ''1'' app0))
   \<and> list_all (\<lambda>item. 1 \<le> quantity item) (cartItems (handleUpdateCartQuantity ''1'' 0 app0))
   \<and> list_all (\<lambda>item. 1 \<le> quantity item) (cartItems (handleClearCart app0))
   \<and> ''1'' \<notin> set (cart_ids (cartItems (handleUpdateCartQuantity ''1'' 0 app0)))"
proof -
  have q: "\<forall>item \<in> set (cartItems app0). 1 \<le> quantity item"
    by (simp add: app0_def)
  show ?thesis
    unfolding list_all_iff
    using q cart_quantity_positive_preserved [OF q, of banana "''1''" 0]
    by simp
qed

text \<open>
  C10. Removing, or setting the quantity of, a product id that no cart item has leaves
  the whole state as it was: the cart is unchanged and nothing is reported.
\<close>

theorem absent_id_noop:
  assumes "k \<notin> set (cart_ids (cartItems st))"
  shows "handleRemoveFromCart k st = st \<and> handleUpdateCartQuantity k n st = st"
proof -
  have keep: "filter (\<lambda>item. id' (product item) \<noteq> k) (cartItems st) = cartItems st"
    using assms by (auto simp: cart_ids_def filter_id_conv)
  have same: "map (\<lambda>item. if id' (product item) = k then item\<lparr>quantity := n\<rparr> else item)
                (cartItems st) = cartItems st"
    using assms by (intro map_idI) (auto simp: cart_ids_def)
  show ?thesis
    by (simp add: handleRemoveFromCart_def handleUpdateCartQuantity_def keep same)
qed

theorem absent_id_noop_witness:
  "''3'' \<notin> set (cart_ids (cartItems app0))
   \<and> cartItems (handleRemoveFromCart ''3'' app0) = cartItems app0
   \<and> cartItems (handleUpdateCartQuantity ''3'' 9 app0) = cartItems app0
   \<and> cartItems (handleUpdateCartQuantity ''3'' (- 2) app0) = cartItems app0"
proof -
  have a: "''3'' \<notin> set (cart_ids (cartItems app0))"
    by (simp add: app0_def apple_def banana_def cart_ids_def)
  show ?thesis
    using a absent_id_noop [OF a, of 9] absent_id_noop [OF a, of "- 2"]
    by simp
qed

section \<open>Properties of the filter and sort pipeline\<close>















lemma mset_insert_cmp: "mset (insert_cmp cmp x ys) = add_mset x (mset ys)"
  by (induction ys) simp_all

lemma mset_sort_cmp: "mset (sort_cmp cmp xs) = mset xs"
  by (induction xs) (simp_all add: mset_insert_cmp)

lemma set_insert_cmp: "set (insert_cmp cmp x ys) = insert x (set ys)"
  using mset_insert_cmp [of cmp x ys, THEN arg_cong, of set_mset] by simp

lemma sorted_wrt_insert_cmp:
  assumes trans: "\<And>a b c. R a b \<Longrightarrow> R b c \<Longrightarrow> R a c"
    and after: "\<And>a b. cmp a b > 0 \<Longrightarrow> R b a"
    and before: "\<And>a b. \<not> cmp a b > 0 \<Longrightarrow> R a b"
    and sorted: "sorted_wrt R ys"
  shows "sorted_wrt R (insert_cmp cmp x ys)"
  using sorted
proof (induction ys)
  case Nil
  then show ?case by simp
next
  case (Cons y ys)
  show ?case
  proof (cases "cmp x y > 0")
    case True
    then have "R y x" by (rule after)
    moreover have "sorted_wrt R (insert_cmp cmp x ys)" using Cons by simp
    ultimately show ?thesis using True Cons.prems by (auto simp: set_insert_cmp)
  next
    case False
    then have xy: "R x y" by (rule before)
    have "\<forall>z \<in> set ys. R x z" using xy Cons.prems trans by auto
    then show ?thesis using False xy Cons.prems by simp
  qed
qed

lemma sorted_wrt_sort_cmp:
  assumes "\<And>a b c. R a b \<Longrightarrow> R b c \<Longrightarrow> R a c"
    and "\<And>a b. cmp a b > 0 \<Longrightarrow> R b a"
    and "\<And>a b. \<not> cmp a b > 0 \<Longrightarrow> R a b"
  shows "sorted_wrt R (sort_cmp cmp xs)"
  by (induction xs) (simp_all add: sorted_wrt_insert_cmp [where R = R, OF assms])

lemma sortProducts_price_asc:
  "sortProducts lc ''price-asc'' ps = sort_cmp (\<lambda>a b. price a - price b) ps"
  by (simp add: sortProducts_def)

lemma sortProducts_price_desc:
  "sortProducts lc ''price-desc'' ps = sort_cmp (\<lambda>a b. price b - price a) ps"
  by (simp add: sortProducts_def)

text \<open>
  C6. Sorting by price. In mode \<^verbatim>\<open>price-asc\<close> the result is a permutation of the input
  with prices in non-decreasing order, in mode \<^verbatim>\<open>price-desc\<close> a permutation with prices
  in non-increasing order. On an input with prices 30, 10, 20 the prices of the result
  are 10, 20, 30 ascending and 30, 20, 10 descending.
\<close>

theorem sortProducts_price_spec:
  "mset (sortProducts lc ''price-asc'' ps) = mset ps
   \<and> sorted_wrt (\<lambda>x y. x \<le> y) (map price (sortProducts lc ''price-asc'' ps))
   \<and> mset (sortProducts lc ''price-desc'' ps) = mset ps
   \<and> sorted_wrt (\<lambda>x y. x \<ge> y) (map price (sortProducts lc ''price-desc'' ps))
   \<and> (map price ps = [30, 10, 20] \<longrightarrow>
        map price (sortProducts lc ''price-asc'' ps) = [10, 20, 30] \<and>
        map price (sortProducts lc ''price-desc'' ps) = [30, 20, 10])"
proof (intro conjI impI)
  show "mset (sortProducts lc ''price-asc'' ps) = mset ps"
    unfolding sortProducts_price_asc by (rule mset_sort_cmp)
  show "mset (sortProducts lc ''price-desc'' ps) = mset ps"
    unfolding sortProducts_price_desc by (rule mset_sort_cmp)
  have "sorted_wrt (\<lambda>a b. price a \<le> price b) (sort_cmp (\<lambda>a b. price a - price b) ps)"
    by (rule sorted_wrt_sort_cmp) auto
  then show "sorted_wrt (\<lambda>x y. x \<le> y) (map price (sortProducts lc ''price-asc'' ps))"
    unfolding sortProducts_price_asc by (simp add: sorted_wrt_map)
  have "sorted_wrt (\<lambda>a b. price a \<ge> price b) (sort_cmp (\<lambda>a b. price b - price a) ps)"
    by (rule sorted_wrt_sort_cmp) auto
  then show "sorted_wrt (\<lambda>x y. x \<ge> y) (map price (sortProducts lc ''price-desc'' ps))"
    unfolding sortProducts_price_desc by (simp add: sorted_wrt_map)
next
  assume "map price ps = [30, 10, 20]"
  then obtain a b c where ps: "ps = [a, b, c]"
    and pr: "price a = 30" "price b = 10" "price c = 20"
    by auto
  show "map price (sortProducts lc ''price-asc'' ps) = [10, 20, 30]"
    unfolding sortProducts_price_asc ps using pr by simp
  show "map price (sortProducts lc ''price-desc'' ps) = [30, 20, 10]"
    unfolding sortProducts_price_desc ps using pr by simp
qed

theorem sortProducts_price_spec_witness:
  "map price [apple, banana, cherry] = [30, 10, 20]
   \<and> sortProducts localeCompare_sample ''price-asc'' [apple, banana, cherry]
       = [banana, cherry, apple]
   \<and> sortProducts localeCompare_sample ''price-desc'' [apple, banana, cherry]
       = [apple, cherry, banana]
   \<and> map price (sortProducts localeCompare_sample ''price-asc'' [apple, banana, cherry])
       = [10, 20, 30]
   \<and> map price (sortProducts localeCompare_sample ''price-desc'' [apple, banana, cherry])
       = [30, 20, 10]"
proof -
  have p: "map price [apple, banana, cherry] = [30, 10, 20]"
    by (simp add: apple_def banana_def cherry_def)
  have a: "sortProducts localeCompare_sample ''price-asc'' [apple, banana, cherry]
       = [banana, cherry, apple]"
    by (simp add: sortProducts_def apple_def banana_def cherry_def)
  have d: "sortProducts localeCompare_sample ''price-desc'' [apple, banana, cherry]
       = [apple, cherry, banana]"
    by (simp add: sortProducts_def apple_def banana_def cherry_def)
  show ?thesis
    using p a d sortProducts_price_spec [of localeCompare_sample "[apple, banana, cherry]"]
    by simp
qed

section \<open>Properties of the remote client, start-up and catalog handlers\<close>

text \<open>
  What holds of a request that is rejected: \<open>getProducts\<close> fulfils with the empty list
  and its promise never rejects, the load stores the empty catalog and ends with the
  loading flag off, and the four other client functions reject with the error.
\<close>

lemma rejected_request_handled:
  "snd (getProducts (Inl e)) = Inr (Decoded [])
   \<and> (\<exists>data. snd (getProducts response) = Inr data)
   \<and> products (load (Inl e) st) = Decoded []
   \<and> loading (App_start msgs cart)
   \<and> \<not> loading (load response st)
   \<and> snd (getProduct ident (Inl e)) = Inl e
   \<and> snd (createProduct p (Inl e)) = Inl e
   \<and> snd (updateProduct ident p (Inl e)) = Inl e
   \<and> snd (deleteProduct ident (Inl e)) = Inl e"
proof (intro conjI)
  show "\<exists>data. snd (getProducts response) = Inr data"
    by (cases response) (simp_all add: getProducts_def)
  show "\<not> loading (load response st)"
    by (cases response) (simp_all add: load_def getProducts_def)
qed (simp_all add: getProducts_def load_def App_start_def getProduct_def createProduct_def
    updateProduct_def deleteProduct_def)

text \<open>
  C7. A list request that is answered with a body that does not decode is fulfilled with
  the raw text. \<open>getProducts\<close> hands the text on and raises no alert: it does not return
  the empty list. The load stores the text as the catalog and the loading flag goes
  off. The client functions for get, create and update hand the text on as well: they
  do not reject.
\<close>

theorem getProducts_undecoded_body:
  "getProducts (Inr (Raw bad_body)) = ([], Inr (Raw bad_body))
   \<and> products (load (Inr (Raw bad_body)) (App_start [] [])) = Raw bad_body
   \<and> products (load (Inr (Raw bad_body)) (App_start [] [])) \<noteq> Decoded []
   \<and> alerts (load (Inr (Raw bad_body)) (App_start [] [])) = []
   \<and> loading (App_start [] [])
   \<and> \<not> loading (load (Inr (Raw bad_body)) (App_start [] []))
   \<and> getProduct ''1'' (Inr (Raw bad_body)) = ([], Inr (Raw bad_body))
   \<and> createProduct apple (Inr (Raw bad_body)) = ([], Inr (Raw bad_body))
   \<and> updateProduct ''1'' apple (Inr (Raw bad_body)) = ([], Inr (Raw bad_body))"
  by (simp add: getProducts_def load_def App_start_def getProduct_def createProduct_def
      updateProduct_def)

text \<open>
  What holds of a stored value that is missing or is not JSON: the initial cart is the
  empty list.
\<close>

lemma cartItems_init_unparsable:
  assumes "saved = Inr None \<or> saved = Inr (Some []) \<or> saved = Inl e
           \<or> (saved = Inr (Some text) \<and> JSON_parse text = Inl e)"
  shows "snd (cartItems_init JSON_parse saved) = JArray []"
  using assms by (auto simp: cartItems_init_def)

text \<open>
  C8. A stored value that is JSON but not a cart. The stored text \<^verbatim>\<open>null\<close> parses to
  \<^verbatim>\<open>null\<close>; the initializer returns it with no alert, not the empty cart, and the first
  render throws when it reads the length of the cart. The stored texts \<^verbatim>\<open>42\<close> and \<^verbatim>\<open>{}\<close>
  become the cart state in the same way; they have no length.
\<close>

theorem cartItems_init_parsable_corruption:
  "parse_sample ''null'' = Inr JNull
   \<and> cartItems_init parse_sample (Inr (Some ''null'')) = ([], JNull)
   \<and> snd (cartItems_init parse_sample (Inr (Some ''null''))) \<noteq> JArray []
   \<and> cartCount (snd (cartItems_init parse_sample (Inr (Some ''null''))))
       = Inl (TypeError ''Cannot read properties of null (reading 'length')'')
   \<and> cartItems_init parse_sample (Inr (Some ''42'')) = ([], JNumber 42)
   \<and> cartCount (JNumber 42) = Inr None
   \<and> cartItems_init parse_sample (Inr (Some ''{}'')) = ([], JObject [])
   \<and> cartCount (JObject []) = Inr None"
  by (simp add: cartItems_init_def parse_sample_def)

text \<open>
  C9. Updating or deleting a product of the catalog, whether the request succeeds or
  fails, leaves the cart list as it was: an item keeps the snapshot of the product it
  was added with.
\<close>

theorem catalog_writes_keep_cart:
  "cartItems (handleUpdateProduct updated response st) = cartItems st
   \<and> cartItems (handleDeleteProduct ident response' st) = cartItems st"
proof
  show "cartItems (handleUpdateProduct updated response st) = cartItems st"
    by (cases response; cases "products st")
      (simp_all add: handleUpdateProduct_def updateProduct_def Let_def)
  show "cartItems (handleDeleteProduct ident response' st) = cartItems st"
    by (cases response'; cases "products st")
      (simp_all add: handleDeleteProduct_def deleteProduct_def Let_def)
qed

theorem catalog_writes_keep_cart_witness:
  "products (handleUpdateProduct (apple\<lparr>price := 99\<rparr>) (Inr (Decoded (apple\<lparr>price := 99\<rparr>))) app0)
     = Decoded [apple\<lparr>price := 99\<rparr>, banana, cherry]
   \<and> cartItems (handleUpdateProduct (apple\<lparr>price := 99\<rparr>) (Inr (Decoded (apple\<lparr>price := 99\<rparr>))) app0)
     = [\<lparr>product = apple, quantity = 1\<rparr>, \<lparr>product = banana, quantity = 3\<rparr>]
   \<and> products (handleDeleteProduct ''2'' (Inr ()) app0) = Decoded [apple, cherry]
   \<and> cartItems (handleDeleteProduct ''2'' (Inr ()) app0)
     = [\<lparr>product = apple, quantity = 1\<rparr>, \<lparr>product = banana, quantity = 3\<rparr>]"
  using catalog_writes_keep_cart [of "apple\<lparr>price := 99\<rparr>" "Inr (Decoded (apple\<lparr>price := 99\<rparr>))" app0
      "''2''" "Inr ()"]
  by (simp add: app0_def handleUpdateProduct_def updateProduct_def handleDeleteProduct_def
      deleteProduct_def apple_def banana_def cherry_def Let_def)

end
